theory Spec2Isabelle
  imports Complex_Main "HOL-Library.Sublist"
begin

section \<open>Python values\<close>

text \<open>
  A Python \<open>str\<close> is modelled by the list of its code points; the model covers the
  texts whose code points lie below 256, so that \<open>len\<close> is the length of the list.
  Exceptions are values: every function of the source that can raise returns a sum, with
  \<open>Inl\<close> for the exception. All exceptions below are subclasses of \<open>Exception\<close>.
\<close>

datatype pyerr =
    TypeError | ValueError | AttributeError | NameError | JSONDecodeError
  | FileNotFoundError | OSError | OtherException

text \<open>A Python \<open>float\<close>: a finite value (every double is a rational) or one of the specials.\<close>

datatype pyfloat = Finite rat | NaN | PosInf | NegInf

text \<open>
  The values \<open>json.loads\<close> returns: \<open>None\<close>, \<open>bool\<close>, \<open>int\<close>, \<open>float\<close>, \<open>str\<close>,
  \<open>list\<close> and \<open>dict\<close>. A decoded object is the list of its items in insertion order; when a
  key is repeated the later value wins, as when the decoder inserts the pairs one by one.
\<close>

datatype json =
    JNull
  | JBool bool
  | JInt int
  | JFloat pyfloat
  | JString string
  | JArray "json list"
  | JObject "(string \<times> json) list"

text \<open>
  The dictionaries the program builds and passes on, projected to their string keys (the only
  keys the program ever reads).
\<close>

type_synonym pydict = "string \<rightharpoonup> json"

text \<open>\<open>str.isspace\<close> on one code point below 256; \<open>\s\<close> of \<open>re\<close> is the same class.\<close>

definition py_isspace :: "char \<Rightarrow> bool" where
  "py_isspace c = (of_char c \<in> {9, 10, 11, 12, 13, 28, 29, 30, 31, 32, 133, 160 :: nat})"

definition py_strip :: "string \<Rightarrow> string" where
  "py_strip s = rev (dropWhile py_isspace (rev (dropWhile py_isspace s)))"

text \<open>\<open>str.lower\<close> on one code point below 256.\<close>

definition py_lower_char :: "char \<Rightarrow> char" where
  "py_lower_char c =
     (let n = (of_char c :: nat)
      in if (65 \<le> n \<and> n \<le> 90) \<or> (192 \<le> n \<and> n \<le> 222 \<and> n \<noteq> 215)
         then char_of (n + 32) else c)"

definition py_lower :: "string \<Rightarrow> string" where
  "py_lower s = map py_lower_char s"

section \<open>main.py: extract_data_with_gemini\<close>

definition default_data :: pydict where
  "default_data =
     [''job_title'' \<mapsto> JString ''Unknown Role (Gemini)'',
      ''company_name'' \<mapsto> JString ''Unknown Company (Gemini)'',
      ''job_description'' \<mapsto> JString ''Could not extract Job Description via Gemini.'',
      ''required_skills'' \<mapsto> JArray [],
      ''emails'' \<mapsto> JArray []]"

definition max_chars :: nat where
  "max_chars = 15000"

definition truncate_content :: "string \<Rightarrow> string" where
  "truncate_content text_content =
     (if length text_content > max_chars
      then take max_chars text_content @ [CHR 0x0A] @ ''... [Content Truncated]''
      else text_content)"

text \<open>The prompt of the source is a string literal; the truncated text is not interpolated.\<close>

definition prompt :: string where
  "prompt = ''... (same prompt as before) ...''"

subsection \<open>The search for a fenced block\<close>

text \<open>
  \<open>re.search(r'```json\s*(\{.*?\})\s*```', response_text, re.DOTALL | re.IGNORECASE)\<close>.
  Neither \<open>{\<close> nor a backquote is white space, so each greedy \<open>\s*\<close> takes all the white
  space there is; the lazy \<open>.*?\<close> stops at the first \<open>}\<close> after which the closing fence
  follows; the search tries the start positions from left to right.
\<close>

definition closes_fence :: "string \<Rightarrow> bool" where
  "closes_fence s = prefix ''```'' (dropWhile py_isspace s)"

fun lazy_body :: "string \<Rightarrow> string \<Rightarrow> string option" where
  "lazy_body acc [] = None"
| "lazy_body acc (c # cs) =
     (if c = CHR ''}'' \<and> closes_fence cs then Some (rev (c # acc))
      else lazy_body (c # acc) cs)"

definition match_fence :: "string \<Rightarrow> string option" where
  "match_fence s =
     (if py_lower (take 7 s) = ''```json''
      then (case dropWhile py_isspace (drop 7 s) of
              [] \<Rightarrow> None
            | c # cs \<Rightarrow> if c = CHR ''{'' then lazy_body [c] cs else None)
      else None)"

fun search_fence :: "string \<Rightarrow> string option" where
  "search_fence [] = None"
| "search_fence (c # cs) =
     (case match_fence (c # cs) of
        Some g \<Rightarrow> Some g
      | None \<Rightarrow> search_fence cs)"

definition json_str_of :: "string \<Rightarrow> string" where
  "json_str_of response_text =
     (case search_fence response_text of
        Some g \<Rightarrow> g
      | None \<Rightarrow> response_text)"

subsection \<open>dict.update\<close>

text \<open>
  \<open>final_data.update(extracted_data)\<close>. A \<open>dict\<close> argument is merged key by key. Any other
  argument is iterated, and every element must itself be a sequence of length two, its first
  component hashable: a list of two values, a string of two characters, or a dict of two
  keys (iterating a dict gives its keys). Numbers, booleans and \<open>None\<close> are not iterable.
\<close>

fun update_items :: "pydict \<Rightarrow> (string \<times> json) list \<Rightarrow> pydict" where
  "update_items d [] = d"
| "update_items d ((k, v) # kvs) = update_items (d(k \<mapsto> v)) kvs"

text \<open>The keys of a decoded object, each once, in the order of first insertion.\<close>

definition dict_keys :: "(string \<times> json) list \<Rightarrow> string list" where
  "dict_keys kvs = rev (remdups (rev (map fst kvs)))"

fun seq_pair :: "json \<Rightarrow> pyerr + json \<times> json" where
  "seq_pair (JArray xs) =
     (case xs of [k, v] \<Rightarrow> Inr (k, v) | _ \<Rightarrow> Inl ValueError)"
| "seq_pair (JString s) =
     (case s of [a, b] \<Rightarrow> Inr (JString [a], JString [b]) | _ \<Rightarrow> Inl ValueError)"
| "seq_pair (JObject kvs) =
     (case dict_keys kvs of [a, b] \<Rightarrow> Inr (JString a, JString b) | _ \<Rightarrow> Inl ValueError)"
| "seq_pair _ = Inl TypeError"

fun hashable :: "json \<Rightarrow> bool" where
  "hashable (JArray xs) = False"
| "hashable (JObject kvs) = False"
| "hashable _ = True"

text \<open>
  \<open>d[k] = v\<close>: an unhashable key raises; a key that is not a string is stored outside the
  projection to string keys.
\<close>

fun set_item :: "pydict \<Rightarrow> json \<Rightarrow> json \<Rightarrow> pyerr + pydict" where
  "set_item d (JString k) v = Inr (d(k \<mapsto> v))"
| "set_item d k v = (if hashable k then Inr d else Inl TypeError)"

fun update_seq :: "pydict \<Rightarrow> json list \<Rightarrow> pyerr + pydict" where
  "update_seq d [] = Inr d"
| "update_seq d (x # xs) =
     (case seq_pair x of
        Inl e \<Rightarrow> Inl e
      | Inr (k, v) \<Rightarrow>
          (case set_item d k v of
             Inl e \<Rightarrow> Inl e
           | Inr d' \<Rightarrow> update_seq d' xs))"

fun dict_update :: "pydict \<Rightarrow> json \<Rightarrow> pyerr + pydict" where
  "dict_update d (JObject kvs) = Inr (update_items d kvs)"
| "dict_update d (JArray xs) = update_seq d xs"
| "dict_update d (JString s) = update_seq d (map (\<lambda>c. JString [c]) s)"
| "dict_update d _ = Inl TypeError"

text \<open>\<open>if not isinstance(final_data.get(k), list): final_data[k] = []\<close>\<close>

definition ensure_list :: "string \<Rightarrow> pydict \<Rightarrow> pydict" where
  "ensure_list k d = (case d k of Some (JArray xs) \<Rightarrow> d | _ \<Rightarrow> d(k \<mapsto> JArray []))"

subsection \<open>The function\<close>

text \<open>
  The two collaborators are parameters: \<open>generate\<close> is the call of the model, giving
  \<open>response.text\<close> or the exception it raises; \<open>loads\<close> is \<open>json.loads\<close>, giving the decoded
  value or the exception it raises.
\<close>

definition decoded ::
  "(string \<Rightarrow> pyerr + string) \<Rightarrow> (string \<Rightarrow> pyerr + json) \<Rightarrow> pyerr + json" where
  "decoded generate loads =
     (case generate prompt of
        Inl e \<Rightarrow> Inl e
      | Inr text \<Rightarrow> loads (json_str_of (py_strip text)))"

definition overlay :: "json \<Rightarrow> pyerr + pydict" where
  "overlay extracted_data =
     (case dict_update default_data extracted_data of
        Inl e \<Rightarrow> Inl e
      | Inr final_data \<Rightarrow>
          Inr (ensure_list ''emails'' (ensure_list ''required_skills'' final_data)))"

definition extract_data_with_gemini ::
  "(string \<Rightarrow> pyerr + string) \<Rightarrow> (string \<Rightarrow> pyerr + json) \<Rightarrow> string \<Rightarrow> string \<Rightarrow> pydict"
  where
  "extract_data_with_gemini generate loads text_content url =
     (let text_content = truncate_content text_content
      in case decoded generate loads of
           Inl e \<Rightarrow> default_data
         | Inr extracted_data \<Rightarrow>
             (case overlay extracted_data of
                Inl e \<Rightarrow> default_data
              | Inr final_data \<Rightarrow> final_data))"

text \<open>
  Stand-ins for the collaborators, to run the function on a concrete response: a model that
  answers every prompt with one text, and the values of \<open>json.loads\<close> on a finite list of
  texts (every other text counts as malformed).
\<close>

definition respond :: "string \<Rightarrow> string \<Rightarrow> pyerr + string" where
  "respond text p = Inr text"

definition loads_table :: "(string \<times> json) list \<Rightarrow> string \<Rightarrow> pyerr + json" where
  "loads_table tbl s = (case map_of tbl s of Some v \<Rightarrow> Inr v | None \<Rightarrow> Inl JSONDecodeError)"

text \<open>
  The decoded values that \<open>dict.update\<close> overlays entry by entry: an object, or an array
  all of whose elements are pairs with a hashable first component.
\<close>

definition pairlike :: "json \<Rightarrow> bool" where
  "pairlike x = (case seq_pair x of Inr (k, v) \<Rightarrow> hashable k | Inl e \<Rightarrow> False)"

fun overlays :: "json \<Rightarrow> bool" where
  "overlays (JObject kvs) = True"
| "overlays (JArray xs) = list_all pairlike xs"
| "overlays _ = False"

definition field_names :: "string list" where
  "field_names = [''job_title'', ''company_name'', ''job_description'', ''required_skills'', ''emails'']"

fun is_list :: "json option \<Rightarrow> bool" where
  "is_list (Some (JArray xs)) = True"
| "is_list _ = False"

section \<open>Python built-ins used by the template filler\<close>

text \<open>Truth value of a decoded value, as \<open>if x\<close> and \<open>not x\<close> test it.\<close>

fun truthy :: "json \<Rightarrow> bool" where
  "truthy JNull = False"
| "truthy (JBool b) = b"
| "truthy (JInt i) = (i \<noteq> 0)"
| "truthy (JFloat f) = (f \<noteq> Finite 0)"
| "truthy (JString s) = (s \<noteq> [])"
| "truthy (JArray xs) = (xs \<noteq> [])"
| "truthy (JObject kvs) = (kvs \<noteq> [])"

fun py_len :: "json \<Rightarrow> pyerr + nat" where
  "py_len (JString s) = Inr (length s)"
| "py_len (JArray xs) = Inr (length xs)"
| "py_len (JObject kvs) = Inr (length (dict_keys kvs))"
| "py_len _ = Inl TypeError"

text \<open>\<open>x.startswith(lit)\<close>: only \<open>str\<close> has the method.\<close>

fun py_startswith :: "json \<Rightarrow> string \<Rightarrow> pyerr + bool" where
  "py_startswith (JString s) lit = Inr (prefix lit s)"
| "py_startswith _ lit = Inl AttributeError"

text \<open>Iteration, as a \<open>for\<close> clause does it: a dict gives its keys, a string its characters.\<close>

fun py_iter :: "json \<Rightarrow> pyerr + json list" where
  "py_iter (JArray xs) = Inr xs"
| "py_iter (JString s) = Inr (map (\<lambda>c. JString [c]) s)"
| "py_iter (JObject kvs) = Inr (map JString (dict_keys kvs))"
| "py_iter _ = Inl TypeError"

text \<open>\<open>d.get(k, default)\<close>\<close>

definition dict_get :: "pydict \<Rightarrow> string \<Rightarrow> json \<Rightarrow> json" where
  "dict_get d k dflt = (case d k of Some v \<Rightarrow> v | None \<Rightarrow> dflt)"

text \<open>
  A replacement field \<open>{x}\<close> of an f-string: a string is inserted as it is; for any other value
  the built-in \<open>str\<close> gives the text, and is a parameter of the model.
\<close>

fun format_field :: "(json \<Rightarrow> string) \<Rightarrow> json \<Rightarrow> string" where
  "format_field py_str (JString s) = s"
| "format_field py_str v = py_str v"

text \<open>
  \<open>s.replace(old, new)\<close>: every occurrence of \<open>old\<close>, found from left to right without
  overlap; an empty \<open>old\<close> matches before every character and at the end.
\<close>

function py_replace :: "string \<Rightarrow> string \<Rightarrow> string \<Rightarrow> string" where
  "py_replace s old new =
     (if old = [] then new @ concat (map (\<lambda>c. c # new) s)
      else if s = [] then []
      else if prefix old s then new @ py_replace (drop (length old) s) old new
      else hd s # py_replace (tl s) old new)"
  by pat_completeness auto
termination
  by (relation "measure (\<lambda>(s, old, new). length s)") auto

declare py_replace.simps [simp del]

text \<open>\<open>sep.join(xs)\<close>\<close>

fun py_join :: "string \<Rightarrow> string list \<Rightarrow> string" where
  "py_join sep [] = []"
| "py_join sep [x] = x"
| "py_join sep (x # y # ys) = x @ sep @ py_join sep (y # ys)"

section \<open>main.py: modify_latex_template\<close>

definition LATEX_SUMMARY_PLACEHOLDER :: string where
  "LATEX_SUMMARY_PLACEHOLDER = ''%<SUMMARY_PLACEHOLDER>%''"

definition LATEX_SKILLS_PLACEHOLDER :: string where
  "LATEX_SKILLS_PLACEHOLDER = ''%<SKILLS_LIST_PLACEHOLDER>%''"

text \<open>\<open>.replace('%', '\\%').replace('&', '\\&').replace('_', '\\_')\<close>\<close>

definition latex_escape :: "string \<Rightarrow> string" where
  "latex_escape s =
     py_replace (py_replace (py_replace s ''%'' [CHR 0x5C, CHR ''%''])
       ''&'' [CHR 0x5C, CHR ''&'']) ''_'' [CHR 0x5C, CHR ''_'']"

text \<open>
  The condition of the summary branch,
  \<open>not summary_text or len(summary_text) < 30 or summary_text.startswith("Could not extract")\<close>,
  evaluated from left to right; a later test runs only when the earlier ones are false.
\<close>

definition use_generic_summary :: "json \<Rightarrow> pyerr + bool" where
  "use_generic_summary summary_text =
     (if \<not> truthy summary_text then Inr True
      else case py_len summary_text of
             Inl e \<Rightarrow> Inl e
           | Inr n \<Rightarrow>
               if n < 30 then Inr True
               else py_startswith summary_text ''Could not extract'')"

definition generic_summary :: "(json \<Rightarrow> string) \<Rightarrow> pydict \<Rightarrow> string" where
  "generic_summary py_str extracted_data =
     ''Highly motivated professional seeking the ''
     @ format_field py_str (dict_get extracted_data ''job_title'' (JString ''challenging''))
     @ '' position at ''
     @ format_field py_str (dict_get extracted_data ''company_name'' (JString ''your esteemed company''))
     @ ''.''"

definition quoting_summary :: "(json \<Rightarrow> string) \<Rightarrow> pydict \<Rightarrow> json \<Rightarrow> string" where
  "quoting_summary py_str extracted_data summary_text =
     ''Summary based on job description: ''
     @ format_field py_str summary_text
     @ '' My background aligns with the requirements of the ''
     @ format_field py_str (dict_get extracted_data ''job_title'' (JString ''role''))
     @ '' position.''"

text \<open>The summary section: the text that replaces the summary placeholder.\<close>

definition summary_section :: "(json \<Rightarrow> string) \<Rightarrow> pydict \<Rightarrow> pyerr + string" where
  "summary_section py_str extracted_data =
     (let summary_text = dict_get extracted_data ''job_description'' (JString [])
      in case use_generic_summary summary_text of
           Inl e \<Rightarrow> Inl e
         | Inr generic \<Rightarrow>
             Inr (latex_escape
               (if generic then generic_summary py_str extracted_data
                else quoting_summary py_str extracted_data summary_text)))"

text \<open>One item of the skills list; only a \<open>str\<close> has \<open>replace\<close>.\<close>

fun skill_item :: "json \<Rightarrow> pyerr + string" where
  "skill_item (JString skill) = Inr (''    '' @ [CHR 0x5C] @ ''item '' @ latex_escape skill)"
| "skill_item _ = Inl AttributeError"

fun skill_items :: "json list \<Rightarrow> pyerr + string list" where
  "skill_items [] = Inr []"
| "skill_items (x # xs) =
     (case skill_item x of
        Inl e \<Rightarrow> Inl e
      | Inr i \<Rightarrow> (case skill_items xs of Inl e \<Rightarrow> Inl e | Inr is \<Rightarrow> Inr (i # is)))"

text \<open>The skills section: the text that replaces the skills placeholder.\<close>

definition skills_section :: "pydict \<Rightarrow> pyerr + string" where
  "skills_section extracted_data =
     (let skills_list = dict_get extracted_data ''required_skills'' (JArray [])
      in if truthy skills_list
         then (case py_iter skills_list of
                 Inl e \<Rightarrow> Inl e
               | Inr xs \<Rightarrow>
                   (case skill_items xs of
                      Inl e \<Rightarrow> Inl e
                    | Inr items \<Rightarrow> Inr (py_join [CHR 0x0A] items)))
         else Inr (''    '' @ [CHR 0x5C] @ ''item No specific skills extracted.''))"

text \<open>The content written to the output file, from the content of the template.\<close>

definition fill_template :: "(json \<Rightarrow> string) \<Rightarrow> string \<Rightarrow> pydict \<Rightarrow> pyerr + string" where
  "fill_template py_str template_content extracted_data =
     (case summary_section py_str extracted_data of
        Inl e \<Rightarrow> Inl e
      | Inr summary_text \<Rightarrow>
          (let modified_content =
                 py_replace template_content LATEX_SUMMARY_PLACEHOLDER summary_text
           in case skills_section extracted_data of
                Inl e \<Rightarrow> Inl e
              | Inr skills_latex_items \<Rightarrow>
                  Inr (py_replace modified_content LATEX_SKILLS_PLACEHOLDER skills_latex_items)))"

text \<open>
  The positions at which a token occurs in a text. A token occurs exactly once when the list
  has one element.
\<close>

definition occurrences :: "string \<Rightarrow> string \<Rightarrow> nat list" where
  "occurrences tok s = filter (\<lambda>i. prefix tok (drop i s)) [0..<Suc (length s)]"

text \<open>In an escaped text every \<open>%\<close> stands right after a backslash.\<close>

definition percent_guarded :: "string \<Rightarrow> bool" where
  "percent_guarded s =
     (\<forall>j<length s. s ! j = CHR ''%'' \<longrightarrow> 0 < j \<and> s ! (j - 1) = CHR 0x5C)"

subsection \<open>The operating system\<close>

text \<open>
  The file system and the processes are a state \<open>'w\<close> the functions pass along; what the
  operations do is a parameter. Reading a file gives its content or the exception raised and
  leaves the state as it is; the other operations may change the state even when they raise.
\<close>

record 'w os =
  read_text :: "string \<Rightarrow> 'w \<Rightarrow> pyerr + string"
  makedirs :: "string \<Rightarrow> 'w \<Rightarrow> pyerr option \<times> 'w"
  write_text :: "string \<Rightarrow> string \<Rightarrow> 'w \<Rightarrow> pyerr option \<times> 'w"
  path_exists :: "string \<Rightarrow> 'w \<Rightarrow> bool"
  subprocess_run :: "string list \<Rightarrow> string \<Rightarrow> 'w \<Rightarrow> (pyerr + int) \<times> 'w"

text \<open>\<open>os.path\<close> on POSIX.\<close>

definition is_slash :: "char \<Rightarrow> bool" where
  "is_slash c = (c = CHR ''/'')"

definition basename :: "string \<Rightarrow> string" where
  "basename p = rev (takeWhile (\<lambda>c. \<not> is_slash c) (rev p))"

definition dirname :: "string \<Rightarrow> string" where
  "dirname p =
     (let head = rev (dropWhile (\<lambda>c. \<not> is_slash c) (rev p))
      in if head \<noteq> [] \<and> \<not> list_all is_slash head
         then rev (dropWhile is_slash (rev head)) else head)"

definition path_join :: "string \<Rightarrow> string \<Rightarrow> string" where
  "path_join a b =
     (if prefix ''/'' b then b
      else if a = [] \<or> suffix ''/'' a then a @ b
      else a @ ''/'' @ b)"

definition modify_latex_template ::
  "'w os \<Rightarrow> (json \<Rightarrow> string) \<Rightarrow> string \<Rightarrow> string \<Rightarrow> pydict \<Rightarrow> 'w \<Rightarrow> bool \<times> 'w" where
  "modify_latex_template os py_str template_path output_path extracted_data w =
     (case read_text os template_path w of
        Inl e \<Rightarrow> (False, w)
      | Inr template_content \<Rightarrow>
          (case fill_template py_str template_content extracted_data of
             Inl e \<Rightarrow> (False, w)
           | Inr modified_content \<Rightarrow>
               (case makedirs os (dirname output_path) w of
                  (Some e, w1) \<Rightarrow> (False, w1)
                | (None, w1) \<Rightarrow>
                    (case write_text os output_path modified_content w1 of
                       (Some e, w2) \<Rightarrow> (False, w2)
                     | (None, w2) \<Rightarrow> (True, w2)))))"

section \<open>main.py: compile_latex_to_pdf\<close>

definition pdf_filepath_of :: "string \<Rightarrow> string" where
  "pdf_filepath_of tex_filepath =
     path_join (dirname tex_filepath) (py_replace (basename tex_filepath) ''.tex'' ''.pdf'')"

definition pdflatex_command :: "string \<Rightarrow> string list" where
  "pdflatex_command tex_filepath =
     [''pdflatex'', ''-interaction=nonstopmode'', basename tex_filepath]"

definition compile_latex_to_pdf :: "'w os \<Rightarrow> string \<Rightarrow> 'w \<Rightarrow> bool \<times> 'w" where
  "compile_latex_to_pdf os tex_filepath w =
     (if \<not> path_exists os tex_filepath w then (False, w)
      else case subprocess_run os (pdflatex_command tex_filepath) (dirname tex_filepath) w of
             (Inl e, w') \<Rightarrow> (False, w')
           | (Inr returncode, w') \<Rightarrow>
               if returncode \<noteq> 0 then (False, w')
               else if path_exists os (pdf_filepath_of tex_filepath) w' then (True, w')
               else (False, w'))"

text \<open>
  A small operating system to run the functions on: the state is the map from the paths of
  the files to their contents; directories are not recorded, \<open>makedirs\<close> raises only on the
  empty path, and the compiler is a process that exits with a given status and leaves a given
  list of files behind.
\<close>

type_synonym files = "string \<rightharpoonup> string"

definition files_os :: "int \<Rightarrow> (string \<times> string) list \<Rightarrow> files os" where
  "files_os status produced =
     \<lparr> read_text = (\<lambda>p w. case w p of Some c \<Rightarrow> Inr c | None \<Rightarrow> Inl FileNotFoundError),
       makedirs = (\<lambda>p w. (if p = [] then Some FileNotFoundError else None, w)),
       write_text = (\<lambda>p c w. (None, w(p \<mapsto> c))),
       path_exists = (\<lambda>p w. w p \<noteq> None),
       subprocess_run = (\<lambda>cmd cwd w. (Inr status, w ++ map_of produced)) \<rparr>"

definition no_compiler_os :: "files os" where
  "no_compiler_os =
     (files_os 0 []) \<lparr> subprocess_run := (\<lambda>cmd cwd w. (Inl FileNotFoundError, w)) \<rparr>"


text \<open>
  A listing with every field a string or a list of strings, to run the filler on. Filling it
  formats no value other than a string, so the parameter for the built-in \<open>str\<close> is never
  called in such a run; \<open>str_unused\<close> stands for it there.
\<close>

definition str_unused :: "json \<Rightarrow> string" where
  "str_unused v = []"

definition listing :: "string \<Rightarrow> pydict" where
  "listing description =
     [''job_title'' \<mapsto> JString ''Data Engineer'',
      ''company_name'' \<mapsto> JString ''Acme'',
      ''job_description'' \<mapsto> JString description,
      ''required_skills'' \<mapsto> JArray [JString ''Python'', JString ''SQL''],
      ''emails'' \<mapsto> JArray []]"

section \<open>testing.py\<close>

subsection \<open>Character classes of Python, on code points below 256\<close>

text \<open>\<open>str.isalpha\<close> on one code point: the letters.\<close>

definition py_isalpha_char :: "char \<Rightarrow> bool" where
  "py_isalpha_char c =
     (let n = (of_char c :: nat)
      in (65 \<le> n \<and> n \<le> 90) \<or> (97 \<le> n \<and> n \<le> 122) \<or> n = 170 \<or> n = 181 \<or> n = 186
         \<or> (192 \<le> n \<and> n \<le> 214) \<or> (216 \<le> n \<and> n \<le> 246) \<or> 248 \<le> n)"

definition py_isalpha :: "string \<Rightarrow> bool" where
  "py_isalpha s = (s \<noteq> [] \<and> list_all py_isalpha_char s)"

text \<open>\<open>\w\<close> of \<open>re\<close> on a \<open>str\<close>: letters, digits and other numeric characters, and \<open>_\<close>.\<close>

definition py_isword :: "char \<Rightarrow> bool" where
  "py_isword c =
     (let n = (of_char c :: nat)
      in py_isalpha_char c \<or> (48 \<le> n \<and> n \<le> 57) \<or> n = 95
         \<or> n = 178 \<or> n = 179 \<or> n = 185 \<or> n = 188 \<or> n = 189 \<or> n = 190)"

text \<open>
  \<open>str.capitalize\<close>: the first character in upper case, the rest in lower case. The upper
  case of the code points 181, 223 and 255 lies outside the model; they are left as they are.
\<close>

definition py_upper_char :: "char \<Rightarrow> char" where
  "py_upper_char c =
     (let n = (of_char c :: nat)
      in if (97 \<le> n \<and> n \<le> 122) \<or> (224 \<le> n \<and> n \<le> 254 \<and> n \<noteq> 247)
         then char_of (n - 32) else c)"

fun py_capitalize :: "string \<Rightarrow> string" where
  "py_capitalize [] = []"
| "py_capitalize (c # cs) = py_upper_char c # py_lower cs"

subsection \<open>extract_skills\<close>

definition PREDEFINED_SKILLS :: "string list" where
  "PREDEFINED_SKILLS =
     [''python'', ''java'', ''c++'', ''javascript'', ''html'', ''css'', ''sql'', ''nosql'', ''mongodb'',
      ''react'', ''angular'', ''vue'', ''node.js'', ''django'', ''flask'', ''spring'',
      ''machine learning'', ''deep learning'', ''data science'', ''data analysis'',
      ''aws'', ''azure'', ''gcp'', ''docker'', ''kubernetes'', ''git'', ''jira'', ''agile'',
      ''communication'', ''teamwork'', ''problem solving'', ''leadership'', ''project management'']"

text \<open>
  \<open>\b\<close> at position \<open>i\<close> of \<open>t\<close>: exactly one of the characters before and after the position
  is a word character (the start and the end of the text count as not a word character).
\<close>

definition word_boundary :: "string \<Rightarrow> nat \<Rightarrow> bool" where
  "word_boundary t i =
     ((0 < i \<and> i \<le> length t \<and> py_isword (t ! (i - 1))) \<noteq> (i < length t \<and> py_isword (t ! i)))"

text \<open>
  \<open>re.search(r'\b' + re.escape(lit) + r'\b', t)\<close>: the escaped text matches itself, character
  by character, at some position with a boundary on either side.
\<close>

definition matches_at :: "string \<Rightarrow> string \<Rightarrow> nat \<Rightarrow> bool" where
  "matches_at lit t i =
     (word_boundary t i \<and> prefix lit (drop i t) \<and> word_boundary t (i + length lit))"

definition re_search_word :: "string \<Rightarrow> string \<Rightarrow> bool" where
  "re_search_word lit t = list_ex (matches_at lit t) [0..<Suc (length t)]"

text \<open>
  The function returns \<open>list(found_skills)\<close> of a set; the order of that list is not
  determined by the source, and the model gives the set.
\<close>

definition extract_skills :: "string \<Rightarrow> string list \<Rightarrow> string set" where
  "extract_skills text skill_list =
     set (map py_capitalize
       (filter (\<lambda>skill. re_search_word (py_lower skill) (py_lower text)) skill_list))"

subsection \<open>extract_keywords\<close>

text \<open>
  The module imports the corpus reader under the name \<open>stopwords\<close> and binds no
  \<open>stop_words\<close>, neither in this file nor through an import: evaluating the name raises
  \<open>NameError\<close>.
\<close>

definition stop_words :: "pyerr + string list" where
  "stop_words = Inl NameError"

text \<open>
  \<open>[word for word in tokens if word.isalpha() and word not in stop_words]\<close>: the name
  \<open>stop_words\<close> is evaluated for each token that is alphabetic, and for no other.
\<close>

fun filter_tokens :: "string list \<Rightarrow> pyerr + string list" where
  "filter_tokens [] = Inr []"
| "filter_tokens (word # tokens) =
     (if py_isalpha word
      then (case stop_words of
              Inl e \<Rightarrow> Inl e
            | Inr sw \<Rightarrow>
                (case filter_tokens tokens of
                   Inl e \<Rightarrow> Inl e
                 | Inr rest \<Rightarrow> Inr (if word \<notin> set sw then word # rest else rest)))
      else filter_tokens tokens)"

text \<open>\<open>Counter(xs)\<close>: the elements with their counts, in the order of first occurrence.\<close>

fun first_occurrences :: "string list \<Rightarrow> string list" where
  "first_occurrences [] = []"
| "first_occurrences (x # xs) = x # filter (\<lambda>y. y \<noteq> x) (first_occurrences xs)"

definition counter :: "string list \<Rightarrow> (string \<times> nat) list" where
  "counter xs = map (\<lambda>x. (x, count_list xs x)) (first_occurrences xs)"

text \<open>
  \<open>counts.most_common(n)\<close>: the \<open>n\<close> entries with the largest counts, by a stable sort on
  the count in descending order; none when \<open>n\<close> is not positive.
\<close>

definition most_common :: "(string \<times> nat) list \<Rightarrow> int \<Rightarrow> (string \<times> nat) list" where
  "most_common counts n = take (nat n) (sort_key (\<lambda>(w, c). - int c) counts)"

text \<open>The tokenizer of NLTK is a parameter: it gives the tokens or the exception it raises.\<close>

definition extract_keywords ::
  "(string \<Rightarrow> pyerr + string list) \<Rightarrow> string \<Rightarrow> int \<Rightarrow> pyerr + string list" where
  "extract_keywords word_tokenize text num_keywords =
     (if text = [] then Inr []
      else case word_tokenize (py_lower text) of
             Inl e \<Rightarrow> Inl e
           | Inr tokens \<Rightarrow>
               (case filter_tokens tokens of
                  Inl e \<Rightarrow> Inl e
                | Inr filtered_tokens \<Rightarrow>
                    Inr (map fst (most_common (counter filtered_tokens) num_keywords))))"

text \<open>
  A stand-in for the tokenizer, to run the function on: the values of \<open>word_tokenize\<close> on a
  finite list of texts (every other text has no token).
\<close>

definition tokens_table :: "(string \<times> string list) list \<Rightarrow> string \<Rightarrow> pyerr + string list" where
  "tokens_table tbl s = (case map_of tbl s of Some ts \<Rightarrow> Inr ts | None \<Rightarrow> Inr [])"

subsection \<open>calculate_similarity\<close>

text \<open>
  The vector space is built by scikit-learn, in floating point, and is a parameter:
  \<open>fit_transform\<close> gives the matrix of the two documents or the exception raised (a
  \<open>ValueError\<close> when the vocabulary is empty), \<open>cosine_similarity\<close> the entry \<open>[0][0]\<close> of the
  similarity of its two rows, \<open>percent_round\<close> the value of \<open>round(similarity * 100, 2)\<close>.
\<close>

record 'm sklearn =
  fit_transform :: "string list \<Rightarrow> pyerr + 'm"
  cosine_similarity :: "'m \<Rightarrow> pyerr + pyfloat"
  percent_round :: "pyfloat \<Rightarrow> pyerr + pyfloat"

definition calculate_similarity :: "'m sklearn \<Rightarrow> string \<Rightarrow> string \<Rightarrow> pyfloat" where
  "calculate_similarity sk resume_text jd_text =
     (if resume_text = [] \<or> jd_text = [] then Finite 0
      else case fit_transform sk [resume_text, jd_text] of
             Inl e \<Rightarrow> Finite 0
           | Inr tfidf_matrix \<Rightarrow>
               (case cosine_similarity sk tfidf_matrix of
                  Inl e \<Rightarrow> Finite 0
                | Inr similarity \<Rightarrow>
                    (case percent_round sk similarity of
                       Inl e \<Rightarrow> Finite 0
                     | Inr score \<Rightarrow> score)))"

text \<open>A stand-in for a corpus of stop words only: the vectorizer finds no vocabulary.\<close>

definition empty_vocabulary :: "unit sklearn" where
  "empty_vocabulary =
     \<lparr> fit_transform = (\<lambda>corpus. Inl ValueError),
       cosine_similarity = (\<lambda>m. Inr (Finite 1)),
       percent_round = (\<lambda>x. Inr x) \<rparr>"

section \<open>Properties of extract_data_with_gemini\<close>

lemma ensure_list_default [simp]:
  "ensure_list ''emails'' (ensure_list ''required_skills'' default_data) = default_data"
  by (simp add: ensure_list_def default_data_def)

lemma update_seq_fails:
  "\<not> list_all pairlike xs \<Longrightarrow> \<exists>e. update_seq d xs = Inl e"
proof (induction xs arbitrary: d)
  case Nil
  then show ?case by simp
next
  case (Cons x xs)
  show ?case
  proof (cases "seq_pair x")
    case (Inl e)
    then show ?thesis by simp
  next
    case (Inr kv)
    obtain k v where kv: "kv = (k, v)" by (cases kv)
    show ?thesis
    proof (cases "hashable k")
      case False
      then have "set_item d k v = Inl TypeError" by (cases k) simp_all
      with Inr kv show ?thesis by simp
    next
      case True
      then obtain d' where d': "set_item d k v = Inr d'" by (cases k) simp_all
      from Inr kv True have "pairlike x" by (simp add: pairlike_def)
      with Cons.prems have "\<not> list_all pairlike xs" by simp
      from Cons.IH [OF this] obtain e where "update_seq d' xs = Inl e" by blast
      with Inr kv d' show ?thesis by simp
    qed
  qed
qed

lemma update_seq_chars:
  "update_seq d (map (\<lambda>c. JString [c]) s) = (if s = [] then Inr d else Inl ValueError)"
  by (cases s) simp_all

lemma overlay_rejected:
  "\<not> overlays v \<Longrightarrow> overlay v = Inr default_data \<or> (\<exists>e. overlay v = Inl e)"
proof (cases v)
  case (JArray xs)
  assume "\<not> overlays v"
  with JArray have "\<not> list_all pairlike xs" by simp
  from update_seq_fails [OF this] obtain e where "update_seq default_data xs = Inl e" by blast
  with JArray show ?thesis by (simp add: overlay_def)
next
  case (JString s)
  then show ?thesis by (simp add: overlay_def update_seq_chars)
qed (simp_all add: overlay_def)

text \<open>
  C1 (as amended). Whenever the call of the model raises, \<open>json.loads\<close> raises, or the
  decoded value is neither an object nor an array made only of pairs, the function returns
  exactly the default record. The function has no exceptional result: every exception of
  the \<open>try\<close> body is answered with the default record.
\<close>

theorem extract_default_on_failure:
  assumes "case decoded generate loads of Inl e \<Rightarrow> True | Inr v \<Rightarrow> \<not> overlays v"
  shows "extract_data_with_gemini generate loads text_content url = default_data"
proof (cases "decoded generate loads")
  case (Inl e)
  then show ?thesis by (simp add: extract_data_with_gemini_def)
next
  case (Inr v)
  with assms have "\<not> overlays v" by simp
  from overlay_rejected [OF this] Inr show ?thesis
    by (auto simp: extract_data_with_gemini_def)
qed

theorem extract_default_on_failure_witness:
  "decoded (respond ''42'') (loads_table [(''42'', JInt 42)]) = Inr (JInt 42)
   \<and> extract_data_with_gemini (respond ''42'') (loads_table [(''42'', JInt 42)])
        ''Software Engineer at Acme'' ''https://example.com/job'' = default_data"
proof -
  have d: "decoded (respond ''42'') (loads_table [(''42'', JInt 42)]) = Inr (JInt 42)"
    by code_simp
  have "extract_data_with_gemini (respond ''42'') (loads_table [(''42'', JInt 42)])
        ''Software Engineer at Acme'' ''https://example.com/job'' = default_data"
    by (rule extract_default_on_failure) (simp add: d)
  with d show ?thesis by simp
qed

text \<open>
  C1 as stated fails for a decoded value that is not an object: the response
  \<open>[["job_title", "Engineer"]]\<close> decodes to a list of one pair, \<open>dict.update\<close> accepts it,
  and the returned title is \<open>Engineer\<close>, not the default.
\<close>

theorem extract_array_of_pairs_counterexample:
  "decoded (respond ''[[\"job_title\", \"Engineer\"]]'')
     (loads_table [(''[[\"job_title\", \"Engineer\"]]'',
        JArray [JArray [JString ''job_title'', JString ''Engineer'']])])
     = Inr (JArray [JArray [JString ''job_title'', JString ''Engineer'']])
   \<and> extract_data_with_gemini (respond ''[[\"job_title\", \"Engineer\"]]'')
     (loads_table [(''[[\"job_title\", \"Engineer\"]]'',
        JArray [JArray [JString ''job_title'', JString ''Engineer'']])])
     ''Software Engineer at Acme'' ''https://example.com/job'' ''job_title''
     = Some (JString ''Engineer'')
   \<and> default_data ''job_title'' = Some (JString ''Unknown Role (Gemini)'')"
  by code_simp

lemma update_items_lookup:
  "update_items d kvs k = (case map_of (rev kvs) k of None \<Rightarrow> d k | Some v \<Rightarrow> Some v)"
proof (induction kvs arbitrary: d)
  case Nil
  then show ?case by simp
next
  case (Cons kv kvs)
  obtain k' v' where kv: "kv = (k', v')" by (cases kv)
  show ?case
    by (simp add: kv Cons.IH map_add_def split: option.splits)
qed

lemma set_item_dom: "set_item d k v = Inr d1 \<Longrightarrow> dom d \<subseteq> dom d1"
  by (cases k) (auto split: if_splits)

lemma update_seq_dom:
  "update_seq d xs = Inr d' \<Longrightarrow> dom d \<subseteq> dom d'"
proof (induction xs arbitrary: d)
  case Nil
  then show ?case by simp
next
  case (Cons x xs)
  from Cons.prems obtain k v where kv: "seq_pair x = Inr (k, v)"
    by (cases "seq_pair x") auto
  with Cons.prems obtain d1 where d1: "set_item d k v = Inr d1" and r: "update_seq d1 xs = Inr d'"
    by (cases "set_item d k v") auto
  from set_item_dom [OF d1] Cons.IH [OF r] show ?case by blast
qed

lemma update_items_dom: "dom d \<subseteq> dom (update_items d kvs)"
  by (auto simp: update_items_lookup split: option.splits)

lemma dict_update_dom:
  assumes "dict_update d v = Inr d'"
  shows "dom d \<subseteq> dom d'"
proof (cases v)
  case (JObject kvs)
  with assms have "d' = update_items d kvs" by simp
  then show ?thesis by (simp add: update_items_dom)
next
  case (JArray xs)
  with assms show ?thesis by (simp add: update_seq_dom)
next
  case (JString s)
  with assms show ?thesis by (simp add: update_seq_dom)
qed (use assms in simp_all)

lemma ensure_list_dom: "dom d \<subseteq> dom (ensure_list k d)"
  by (auto simp: ensure_list_def split: option.splits json.splits)

lemma ensure_list_same: "is_list (ensure_list k d k)"
  by (auto simp: ensure_list_def split: option.splits json.splits)

lemma ensure_list_other: "k' \<noteq> k \<Longrightarrow> ensure_list k d k' = d k'"
  by (auto simp: ensure_list_def split: option.splits json.splits)

lemma ensure_list_keeps: "is_list (d k') \<Longrightarrow> is_list (ensure_list k d k')"
  by (cases "k' = k") (simp_all add: ensure_list_same ensure_list_other)

lemma overlay_shape:
  assumes "overlay v = Inr d"
  shows "dom default_data \<subseteq> dom d \<and> is_list (d ''required_skills'') \<and> is_list (d ''emails'')"
proof -
  from assms obtain f where f: "dict_update default_data v = Inr f"
    and d: "d = ensure_list ''emails'' (ensure_list ''required_skills'' f)"
    by (auto simp: overlay_def split: sum.splits)
  have "dom default_data \<subseteq> dom f" by (rule dict_update_dom [OF f])
  also have "\<dots> \<subseteq> dom (ensure_list ''required_skills'' f)" by (rule ensure_list_dom)
  also have "\<dots> \<subseteq> dom d" unfolding d by (rule ensure_list_dom)
  finally have 1: "dom default_data \<subseteq> dom d" .
  have 2: "is_list (d ''required_skills'')" unfolding d
    by (intro ensure_list_keeps ensure_list_same)
  have 3: "is_list (d ''emails'')" unfolding d by (rule ensure_list_same)
  from 1 2 3 show ?thesis by simp
qed

lemma default_dom: "dom default_data = set field_names"
  by (auto simp: default_data_def field_names_def split: if_splits)

lemma default_lists: "is_list (default_data ''required_skills'')" "is_list (default_data ''emails'')"
  by (simp_all add: default_data_def)


lemma ensure_list_lookup:
  "ensure_list k d k' = (if k' = k \<and> \<not> is_list (d k) then Some (JArray []) else d k')"
  by (auto simp: ensure_list_def split: option.splits json.splits)

lemma overlay_object:
  "overlay (JObject kvs) =
     Inr (ensure_list ''emails'' (ensure_list ''required_skills'' (update_items default_data kvs)))"
  by (simp add: overlay_def)

lemma overlay_object_lookup:
  assumes "overlay (JObject kvs) = Inr d"
  shows "d k = (case map_of (rev kvs) k of
                  None \<Rightarrow> default_data k
                | Some v \<Rightarrow>
                    if (k = ''required_skills'' \<or> k = ''emails'') \<and> \<not> is_list (Some v)
                    then Some (JArray []) else Some v)"
proof -
  from assms have d: "d = ensure_list ''emails'' (ensure_list ''required_skills'' (update_items default_data kvs))"
    by (simp add: overlay_object)
  consider "k = ''emails''" | "k = ''required_skills''" | "k \<noteq> ''emails''" "k \<noteq> ''required_skills''"
    by blast
  then show ?thesis
  proof cases
    case 1
    then show ?thesis unfolding d
      by (simp add: ensure_list_lookup update_items_lookup default_lists split: option.splits)
  next
    case 2
    then show ?thesis unfolding d
      by (simp add: ensure_list_lookup update_items_lookup default_lists split: option.splits)
  next
    case 3
    then show ?thesis unfolding d
      by (simp add: ensure_list_lookup update_items_lookup split: option.splits)
  qed
qed

text \<open>
  C2 (as amended). For every response the returned record has the five fields, and
  \<open>required_skills\<close> and \<open>emails\<close> are lists. When the response decodes to an object, every key
  the object lacks keeps its default, a parsed value that is not a list is replaced by the
  empty list for \<open>required_skills\<close> and \<open>emails\<close>, and every other parsed value, \<open>null\<close> and
  extra keys included, is returned as parsed.
\<close>

theorem extract_well_formed:
  "list_all (\<lambda>k. extract_data_with_gemini generate loads text_content url k \<noteq> None) field_names
   \<and> is_list (extract_data_with_gemini generate loads text_content url ''required_skills'')
   \<and> is_list (extract_data_with_gemini generate loads text_content url ''emails'')
   \<and> (decoded generate loads = Inr (JObject kvs) \<longrightarrow>
        (\<forall>k. extract_data_with_gemini generate loads text_content url k =
           (case map_of (rev kvs) k of
              None \<Rightarrow> default_data k
            | Some v \<Rightarrow>
                if (k = ''required_skills'' \<or> k = ''emails'') \<and> \<not> is_list (Some v)
                then Some (JArray []) else Some v)))"
proof -
  let ?d = "extract_data_with_gemini generate loads text_content url"
  have shape: "dom default_data \<subseteq> dom ?d \<and> is_list (?d ''required_skills'') \<and> is_list (?d ''emails'')"
  proof (cases "decoded generate loads")
    case (Inl e)
    then have "?d = default_data" by (simp add: extract_data_with_gemini_def)
    then show ?thesis by (simp add: default_lists)
  next
    case (Inr v)
    show ?thesis
    proof (cases "overlay v")
      case (Inl e)
      with Inr have "?d = default_data" by (simp add: extract_data_with_gemini_def)
      then show ?thesis by (simp add: default_lists)
    next
      case r: (Inr f)
      with Inr have "?d = f" by (simp add: extract_data_with_gemini_def)
      with overlay_shape [OF r] show ?thesis by simp
    qed
  qed
  then have "set field_names \<subseteq> dom ?d" by (simp add: default_dom)
  then have 1: "list_all (\<lambda>k. ?d k \<noteq> None) field_names"
    by (auto simp: list_all_iff)
  have 2: "decoded generate loads = Inr (JObject kvs) \<longrightarrow>
        (\<forall>k. ?d k =
           (case map_of (rev kvs) k of
              None \<Rightarrow> default_data k
            | Some v \<Rightarrow>
                if (k = ''required_skills'' \<or> k = ''emails'') \<and> \<not> is_list (Some v)
                then Some (JArray []) else Some v))"
  proof (intro impI allI)
    fix k
    assume dec: "decoded generate loads = Inr (JObject kvs)"
    obtain f where f: "overlay (JObject kvs) = Inr f" by (simp add: overlay_object)
    with dec have "?d = f" by (simp add: extract_data_with_gemini_def)
    with overlay_object_lookup [OF f, of k] show "?d k =
           (case map_of (rev kvs) k of
              None \<Rightarrow> default_data k
            | Some v \<Rightarrow>
                if (k = ''required_skills'' \<or> k = ''emails'') \<and> \<not> is_list (Some v)
                then Some (JArray []) else Some v)" by simp
  qed
  from shape 1 2 show ?thesis by blast
qed

theorem extract_well_formed_witness:
  "decoded (respond ''{\"job_title\": \"Data Engineer\", \"required_skills\": \"python\"}'')
     (loads_table [(''{\"job_title\": \"Data Engineer\", \"required_skills\": \"python\"}'',
        JObject [(''job_title'', JString ''Data Engineer''), (''required_skills'', JString ''python'')])])
     = Inr (JObject [(''job_title'', JString ''Data Engineer''), (''required_skills'', JString ''python'')])
   \<and> extract_data_with_gemini
     (respond ''{\"job_title\": \"Data Engineer\", \"required_skills\": \"python\"}'')
     (loads_table [(''{\"job_title\": \"Data Engineer\", \"required_skills\": \"python\"}'',
        JObject [(''job_title'', JString ''Data Engineer''), (''required_skills'', JString ''python'')])])
     ''Software Engineer at Acme'' ''https://example.com/job'' ''required_skills'' = Some (JArray [])
   \<and> extract_data_with_gemini
     (respond ''{\"job_title\": \"Data Engineer\", \"required_skills\": \"python\"}'')
     (loads_table [(''{\"job_title\": \"Data Engineer\", \"required_skills\": \"python\"}'',
        JObject [(''job_title'', JString ''Data Engineer''), (''required_skills'', JString ''python'')])])
     ''Software Engineer at Acme'' ''https://example.com/job'' ''job_title''
       = Some (JString ''Data Engineer'')"
proof -
  let ?g = "respond ''{\"job_title\": \"Data Engineer\", \"required_skills\": \"python\"}''"
  let ?l = "loads_table [(''{\"job_title\": \"Data Engineer\", \"required_skills\": \"python\"}'',
        JObject [(''job_title'', JString ''Data Engineer''), (''required_skills'', JString ''python'')])]"
  let ?kvs = "[(''job_title'', JString ''Data Engineer''), (''required_skills'', JString ''python'')]"
  have d: "decoded ?g ?l = Inr (JObject ?kvs)"
    by code_simp
  from extract_well_formed [of ?g ?l "''Software Engineer at Acme''" "''https://example.com/job''" ?kvs] d
  have all: "\<And>k. extract_data_with_gemini ?g ?l ''Software Engineer at Acme'' ''https://example.com/job'' k =
           (case map_of (rev ?kvs) k of
              None \<Rightarrow> default_data k
            | Some v \<Rightarrow>
                if (k = ''required_skills'' \<or> k = ''emails'') \<and> \<not> is_list (Some v)
                then Some (JArray []) else Some v)"
    by blast
  have 1: "extract_data_with_gemini ?g ?l ''Software Engineer at Acme'' ''https://example.com/job''
             ''required_skills'' = Some (JArray [])"
    by (simp add: all)
  have 2: "extract_data_with_gemini ?g ?l ''Software Engineer at Acme'' ''https://example.com/job''
             ''job_title'' = Some (JString ''Data Engineer'')"
    by (simp add: all)
  from d 1 2 show ?thesis by simp
qed

text \<open>
  C2 as stated fails: the response \<open>{"job_title": null, "salary": 5}\<close> gives a record whose
  title is \<open>None\<close> and which has a sixth key.
\<close>

theorem extract_null_title_counterexample:
  "decoded (respond ''{\"job_title\": null, \"salary\": 5}'')
     (loads_table [(''{\"job_title\": null, \"salary\": 5}'',
        JObject [(''job_title'', JNull), (''salary'', JInt 5)])])
     = Inr (JObject [(''job_title'', JNull), (''salary'', JInt 5)])
   \<and> extract_data_with_gemini (respond ''{\"job_title\": null, \"salary\": 5}'')
     (loads_table [(''{\"job_title\": null, \"salary\": 5}'',
        JObject [(''job_title'', JNull), (''salary'', JInt 5)])])
     ''Software Engineer at Acme'' ''https://example.com/job'' ''job_title'' = Some JNull
   \<and> extract_data_with_gemini (respond ''{\"job_title\": null, \"salary\": 5}'')
     (loads_table [(''{\"job_title\": null, \"salary\": 5}'',
        JObject [(''job_title'', JNull), (''salary'', JInt 5)])])
     ''Software Engineer at Acme'' ''https://example.com/job'' ''salary'' = Some (JInt 5)"
  by code_simp

section \<open>Properties of modify_latex_template\<close>

text \<open>
  C3. For a listing whose description, title and organization are strings: when the
  description is empty, shorter than 30 characters, or starts with \<open>Could not extract\<close>, the
  text that replaces the summary placeholder is the generic sentence naming the title and the
  organization; otherwise it is the sentence that quotes the description as it is and closes
  with the clause naming the title. Either sentence then passes through the escaping of
  \<open>%\<close>, \<open>&\<close> and \<open>_\<close>. In particular a description of length 29 selects the generic
  sentence, whatever it contains.
\<close>

theorem summary_branch:
  assumes "extracted_data ''job_description'' = Some (JString description)"
    and "extracted_data ''job_title'' = Some (JString title)"
    and "extracted_data ''company_name'' = Some (JString organization)"
  shows "summary_section py_str extracted_data =
           Inr (latex_escape
             (if description = [] \<or> length description < 30
                 \<or> prefix ''Could not extract'' description
              then ''Highly motivated professional seeking the '' @ title
                   @ '' position at '' @ organization @ ''.''
              else ''Summary based on job description: '' @ description
                   @ '' My background aligns with the requirements of the '' @ title
                   @ '' position.''))
         \<and> (length description = 29 \<longrightarrow>
              summary_section py_str extracted_data =
                Inr (latex_escape (''Highly motivated professional seeking the '' @ title
                   @ '' position at '' @ organization @ ''.'')))"
proof -
  have generic: "use_generic_summary (JString description) =
      Inr (description = [] \<or> length description < 30
            \<or> prefix ''Could not extract'' description)"
    by (simp add: use_generic_summary_def)
  have get: "dict_get extracted_data ''job_description'' (JString []) = JString description"
    by (simp add: dict_get_def assms)
  have sec: "summary_section py_str extracted_data =
      Inr (latex_escape
        (if description = [] \<or> length description < 30
            \<or> prefix ''Could not extract'' description
         then generic_summary py_str extracted_data
         else quoting_summary py_str extracted_data (JString description)))"
    unfolding summary_section_def Let_def get generic by (simp only: sum.case)
  have g: "generic_summary py_str extracted_data =
      ''Highly motivated professional seeking the '' @ title
        @ '' position at '' @ organization @ ''.''"
    by (simp add: generic_summary_def dict_get_def assms)
  have q: "quoting_summary py_str extracted_data (JString description) =
      ''Summary based on job description: '' @ description
        @ '' My background aligns with the requirements of the '' @ title @ '' position.''"
    by (simp add: quoting_summary_def dict_get_def assms)
  have main: "summary_section py_str extracted_data =
           Inr (latex_escape
             (if description = [] \<or> length description < 30
                 \<or> prefix ''Could not extract'' description
              then ''Highly motivated professional seeking the '' @ title
                   @ '' position at '' @ organization @ ''.''
              else ''Summary based on job description: '' @ description
                   @ '' My background aligns with the requirements of the '' @ title
                   @ '' position.''))"
    unfolding sec g q ..
  show ?thesis
    unfolding main by simp
qed

theorem summary_branch_witness:
  "summary_section str_unused (listing ''We build data platforms for retail banks'') =
     Inr ''Summary based on job description: We build data platforms for retail banks My background aligns with the requirements of the Data Engineer position.''
   \<and> length ''Short text of twenty-nine ch.'' = 29
   \<and> summary_section str_unused (listing ''Short text of twenty-nine ch.'') =
     Inr ''Highly motivated professional seeking the Data Engineer position at Acme.''"
proof -
  have e1: "latex_escape ''Summary based on job description: We build data platforms for retail banks My background aligns with the requirements of the Data Engineer position.'' =
     ''Summary based on job description: We build data platforms for retail banks My background aligns with the requirements of the Data Engineer position.''"
    by code_simp
  have e2: "latex_escape ''Highly motivated professional seeking the Data Engineer position at Acme.'' =
     ''Highly motivated professional seeking the Data Engineer position at Acme.''"
    by code_simp
  have 1: "summary_section str_unused (listing ''We build data platforms for retail banks'') =
     Inr ''Summary based on job description: We build data platforms for retail banks My background aligns with the requirements of the Data Engineer position.''"
    using summary_branch [of "listing ''We build data platforms for retail banks''"
        "''We build data platforms for retail banks''" "''Data Engineer''" "''Acme''" str_unused]
    by (simp add: listing_def e1)
  have 2: "summary_section str_unused (listing ''Short text of twenty-nine ch.'') =
     Inr ''Highly motivated professional seeking the Data Engineer position at Acme.''"
    using summary_branch [of "listing ''Short text of twenty-nine ch.''"
        "''Short text of twenty-nine ch.''" "''Data Engineer''" "''Acme''" str_unused]
    by (simp add: listing_def e2)
  from 1 2 show ?thesis by simp
qed

text \<open>
  C10. When reading the template raises, the function returns \<open>False\<close> and the file system is
  as it was, so the output file is neither created nor changed; the same holds when building
  the content raises. The function returns \<open>True\<close> exactly when reading, filling, creating
  the directory and writing all succeed; in every other case the exception is caught and the
  result is \<open>False\<close>.
\<close>

theorem modify_latex_template_failure:
  "(read_text os template_path w = Inl e \<longrightarrow>
      modify_latex_template os py_str template_path output_path extracted_data w = (False, w))
   \<and> (read_text os template_path w = Inr t \<and> fill_template py_str t extracted_data = Inl e \<longrightarrow>
      modify_latex_template os py_str template_path output_path extracted_data w = (False, w))
   \<and> (fst (modify_latex_template os py_str template_path output_path extracted_data w) =
        (\<exists>t c w1 w2. read_text os template_path w = Inr t
           \<and> fill_template py_str t extracted_data = Inr c
           \<and> makedirs os (dirname output_path) w = (None, w1)
           \<and> write_text os output_path c w1 = (None, w2)))"
  by (auto simp: modify_latex_template_def split: prod.splits sum.splits option.splits)

theorem modify_latex_template_failure_witness:
  "read_text (files_os 0 []) ''/templates/base_resume.tex'' Map.empty = Inl FileNotFoundError
   \<and> modify_latex_template (files_os 0 []) str_unused ''/templates/base_resume.tex''
        ''/out/cv.tex'' default_data Map.empty = (False, Map.empty)"
proof -
  have r: "read_text (files_os 0 []) ''/templates/base_resume.tex'' Map.empty = Inl FileNotFoundError"
    by (simp add: files_os_def)
  from modify_latex_template_failure [of "files_os 0 []" "''/templates/base_resume.tex''" Map.empty
      FileNotFoundError str_unused "''/out/cv.tex''" default_data] r
  show ?thesis by simp
qed

section \<open>Properties of compile_latex_to_pdf\<close>

text \<open>
  C4. The function returns \<open>True\<close> exactly when the source file exists, the compiler process
  returns, its exit status is zero, and the PDF file exists afterwards. An exit status of zero
  without the PDF gives \<open>False\<close>, and so does every exception raised when the process is
  started, a missing compiler included.
\<close>

theorem compile_success_iff:
  "fst (compile_latex_to_pdf os tex_filepath w) =
     (path_exists os tex_filepath w \<and>
      (case subprocess_run os (pdflatex_command tex_filepath) (dirname tex_filepath) w of
         (Inl e, w') \<Rightarrow> False
       | (Inr returncode, w') \<Rightarrow>
           returncode = 0 \<and> path_exists os (pdf_filepath_of tex_filepath) w'))"
  by (simp add: compile_latex_to_pdf_def split: prod.splits sum.splits)

theorem compile_success_iff_witness:
  "fst (compile_latex_to_pdf (files_os 0 []) ''/out/cv.tex'' [''/out/cv.tex'' \<mapsto> ''x'']) = False
   \<and> fst (compile_latex_to_pdf (files_os 0 [(''/out/cv.pdf'', ''y'')]) ''/out/cv.tex''
          [''/out/cv.tex'' \<mapsto> ''x'']) = True
   \<and> fst (compile_latex_to_pdf (files_os 1 [(''/out/cv.pdf'', ''y'')]) ''/out/cv.tex''
          [''/out/cv.tex'' \<mapsto> ''x'']) = False
   \<and> fst (compile_latex_to_pdf no_compiler_os ''/out/cv.tex'' [''/out/cv.tex'' \<mapsto> ''x'']) = False"
proof -
  have p: "pdf_filepath_of ''/out/cv.tex'' = ''/out/cv.pdf''" by code_simp
  show ?thesis
    by (simp add: compile_success_iff p files_os_def no_compiler_os_def)
qed

section \<open>Properties of testing.py\<close>

lemma filter_tokens_alpha:
  "list_ex py_isalpha tokens \<Longrightarrow> filter_tokens tokens = Inl NameError"
  by (induction tokens) (auto simp: stop_words_def)

lemma filter_tokens_no_alpha:
  "\<not> list_ex py_isalpha tokens \<Longrightarrow> filter_tokens tokens = Inr []"
  by (induction tokens) auto

text \<open>
  C6. What the code does where the claim expects the most frequent tokens: for a text that is
  not empty and has a token that is alphabetic, whatever the tokenizer and whatever the number
  of keywords asked for, the function raises \<open>NameError\<close>, since the name \<open>stop_words\<close> is
  not bound.
\<close>

theorem extract_keywords_name_error:
  assumes "text \<noteq> []"
    and "word_tokenize (py_lower text) = Inr tokens"
    and "list_ex py_isalpha tokens"
  shows "extract_keywords word_tokenize text num_keywords = Inl NameError"
  using assms by (simp add: extract_keywords_def filter_tokens_alpha)

theorem extract_keywords_name_error_witness:
  "tokens_table [(''python developer'', [''python'', ''developer''])] (py_lower ''Python developer'')
     = Inr [''python'', ''developer'']
   \<and> list_ex py_isalpha [''python'', ''developer'']
   \<and> extract_keywords (tokens_table [(''python developer'', [''python'', ''developer''])])
        ''Python developer'' 10 = Inl NameError"
proof -
  have t: "tokens_table [(''python developer'', [''python'', ''developer''])] (py_lower ''Python developer'')
     = Inr [''python'', ''developer'']"
    by code_simp
  have a: "list_ex py_isalpha [''python'', ''developer'']"
    by code_simp
  have n: "''Python developer'' \<noteq> []" by simp
  from extract_keywords_name_error
         [of "''Python developer''" "tokens_table [(''python developer'', [''python'', ''developer''])]"
             "[''python'', ''developer'']" 10, OF n t a] t a
  show ?thesis by simp
qed

text \<open>
  C7. What the code does where the claim expects the entry \<open>c++\<close> to be found: in the text
  \<open>C++ and Python\<close> the entry occurs as a whole word and is not reported, while \<open>Python\<close> is;
  the entry is reported for \<open>C++11\<close>, where a word character follows it. The pattern ends
  with \<open>\b\<close> after a \<open>+\<close>, which asks for a word character next.
\<close>

theorem extract_skills_misses_cpp:
  "''C++'' \<notin> extract_skills ''C++ and Python'' PREDEFINED_SKILLS
   \<and> ''Python'' \<in> extract_skills ''C++ and Python'' PREDEFINED_SKILLS
   \<and> ''C++'' \<in> extract_skills ''C++11'' PREDEFINED_SKILLS"
  by code_simp

text \<open>
  C9. The score is exactly \<open>0.0\<close> when either text is empty and when building the vector
  space raises, as it does on an empty vocabulary; the function has no exceptional result.
\<close>

theorem similarity_zero_on_degenerate:
  assumes "resume_text = [] \<or> jd_text = [] \<or> (\<exists>e. fit_transform sk [resume_text, jd_text] = Inl e)"
  shows "calculate_similarity sk resume_text jd_text = Finite 0"
  using assms by (auto simp: calculate_similarity_def)

theorem similarity_zero_on_degenerate_witness:
  "fit_transform empty_vocabulary [''the and of'', ''is a the''] = Inl ValueError
   \<and> calculate_similarity empty_vocabulary ''the and of'' ''is a the'' = Finite 0
   \<and> calculate_similarity empty_vocabulary '''' ''Python developer'' = Finite 0
   \<and> calculate_similarity empty_vocabulary ''Python developer'' '''' = Finite 0"
proof -
  have f: "fit_transform empty_vocabulary [''the and of'', ''is a the''] = Inl ValueError"
    by (simp add: empty_vocabulary_def)
  have 1: "calculate_similarity empty_vocabulary ''the and of'' ''is a the'' = Finite 0"
    by (rule similarity_zero_on_degenerate) (simp add: f)
  have 2: "calculate_similarity empty_vocabulary '''' ''Python developer'' = Finite 0"
    by (rule similarity_zero_on_degenerate) simp
  have 3: "calculate_similarity empty_vocabulary ''Python developer'' '''' = Finite 0"
    by (rule similarity_zero_on_degenerate) simp
  from f 1 2 3 show ?thesis by simp
qed

section \<open>Properties of the two replacements\<close>

subsection \<open>str.replace\<close>

lemma py_replace_Nil: "old \<noteq> [] \<Longrightarrow> py_replace [] old new = []"
  by (simp add: py_replace.simps)

lemma py_replace_hit:
  "old \<noteq> [] \<Longrightarrow> prefix old s \<Longrightarrow>
     py_replace s old new = new @ py_replace (drop (length old) s) old new"
  by (subst py_replace.simps) auto

lemma py_replace_miss:
  "old \<noteq> [] \<Longrightarrow> \<not> prefix old (c # cs) \<Longrightarrow>
     py_replace (c # cs) old new = c # py_replace cs old new"
  by (subst py_replace.simps) simp

lemma py_replace_skip:
  "old \<noteq> [] \<Longrightarrow> (\<forall>i<length a. \<not> prefix old (drop i (a @ r))) \<Longrightarrow>
     py_replace (a @ r) old new = a @ py_replace r old new"
proof (induction a)
  case Nil
  then show ?case by simp
next
  case (Cons c a)
  from Cons.prems(2) have "\<not> prefix old (drop 0 ((c # a) @ r))" by blast
  then have miss: "\<not> prefix old (c # (a @ r))" by simp
  have "\<forall>i<length a. \<not> prefix old (drop i (a @ r))"
  proof (intro allI impI)
    fix i assume "i < length a"
    then have "Suc i < length (c # a)" by simp
    with Cons.prems(2) have "\<not> prefix old (drop (Suc i) ((c # a) @ r))" by blast
    then show "\<not> prefix old (drop i (a @ r))" by simp
  qed
  with Cons.IH Cons.prems(1) have "py_replace (a @ r) old new = a @ py_replace r old new" by blast
  with py_replace_miss [OF Cons.prems(1) miss] show ?case by simp
qed

lemma py_replace_absent:
  "old \<noteq> [] \<Longrightarrow> (\<forall>i<length s. \<not> prefix old (drop i s)) \<Longrightarrow> py_replace s old new = s"
  using py_replace_skip [of old s "[]" new] by (simp add: py_replace_Nil)

lemma py_replace_first:
  assumes "old \<noteq> []" and "\<forall>i<length a. \<not> prefix old (drop i (a @ old @ r))"
  shows "py_replace (a @ old @ r) old new = a @ new @ py_replace r old new"
proof -
  have "py_replace (a @ old @ r) old new = a @ py_replace (old @ r) old new"
    by (rule py_replace_skip [OF assms])
  also have "py_replace (old @ r) old new = new @ py_replace r old new"
    using py_replace_hit [OF assms(1), of "old @ r" new] by simp
  finally show ?thesis .
qed

lemma occurrences_iff:
  assumes "occurrences tok s = [p]" and "i \<le> length s"
  shows "prefix tok (drop i s) \<longleftrightarrow> i = p"
proof -
  have "set (occurrences tok s) = {j \<in> set [0..<Suc (length s)]. prefix tok (drop j s)}"
    unfolding occurrences_def by (rule set_filter)
  with assms(1) have "{j \<in> set [0..<Suc (length s)]. prefix tok (drop j s)} = {p}"
    by simp
  moreover from assms(2) have "i \<in> set [0..<Suc (length s)]" by auto
  ultimately show ?thesis by blast
qed

lemma prefix_window:
  assumes "prefix k (drop i (u @ v))" and "i + length k \<le> length u"
  shows "prefix k (drop i (u @ w))"
proof -
  from assms(2) have i: "i \<le> length u" by simp
  from assms(1) i have 1: "prefix k (drop i u @ v)" by simp
  have 2: "prefix (drop i u) (drop i u @ v)" by simp
  from assms(2) have 3: "length k \<le> length (drop i u)" by simp
  from prefix_length_prefix [OF 1 2 3] have "prefix k (drop i u)" .
  then have "prefix k (drop i u @ w)" by (rule prefix_prefix)
  with i show ?thesis by simp
qed


lemma py_replace_char:
  "py_replace s [c] new = concat (map (\<lambda>x. if x = c then new else [x]) s)"
proof (induction s)
  case Nil
  then show ?case by (simp add: py_replace_Nil)
next
  case (Cons x s)
  show ?case
  proof (cases "x = c")
    case True
    then have "prefix [c] (x # s)" by simp
    from py_replace_hit [OF _ this, of new] Cons.IH True show ?thesis by simp
  next
    case False
    then have "\<not> prefix [c] (x # s)" by simp
    from py_replace_miss [OF _ this, of new] Cons.IH False show ?thesis by simp
  qed
qed

lemma latex_escape_Nil: "latex_escape [] = []"
  by (simp add: latex_escape_def py_replace_char)

lemma latex_escape_Cons:
  "latex_escape (x # s) =
     (if x = CHR ''%'' \<or> x = CHR ''&'' \<or> x = CHR ''_'' then [CHR 0x5C, x] else [x])
     @ latex_escape s"
  by (simp add: latex_escape_def py_replace_char)

lemma latex_escape_append: "latex_escape (u @ v) = latex_escape u @ latex_escape v"
  by (induction u) (simp_all add: latex_escape_Nil latex_escape_Cons)

lemma percent_guarded_append:
  assumes "percent_guarded u" and "percent_guarded v"
  shows "percent_guarded (u @ v)"
  unfolding percent_guarded_def
proof (intro allI impI)
  fix j
  assume j: "j < length (u @ v)" and p: "(u @ v) ! j = CHR ''%''"
  show "0 < j \<and> (u @ v) ! (j - 1) = CHR 0x5C"
  proof (cases "j < length u")
    case True
    with p have "u ! j = CHR ''%''" by (simp add: nth_append)
    with assms(1) [unfolded percent_guarded_def] True have "0 < j \<and> u ! (j - 1) = CHR 0x5C"
      by blast
    moreover from True have "j - 1 < length u" by simp
    ultimately show ?thesis by (simp add: nth_append)
  next
    case False
    with j p have "j - length u < length v" "v ! (j - length u) = CHR ''%''"
      by (simp_all add: nth_append)
    with assms(2) [unfolded percent_guarded_def]
    have "0 < j - length u \<and> v ! (j - length u - 1) = CHR 0x5C"
      by blast
    then have g: "0 < j - length u" and b: "v ! (j - length u - 1) = CHR 0x5C" by simp_all
    from g have 1: "\<not> j - 1 < length u" by arith
    have 2: "j - 1 - length u = j - length u - 1" by arith
    from g have 3: "0 < j" by arith
    have "(u @ v) ! (j - 1) = v ! (j - 1 - length u)" using 1 by (simp add: nth_append)
    with 2 b 3 show ?thesis by simp
  qed
qed

lemma percent_guarded_escape: "percent_guarded (latex_escape s)"
proof (induction s)
  case Nil
  then show ?case by (simp add: latex_escape_Nil percent_guarded_def)
next
  case (Cons x s)
  have "percent_guarded (if x = CHR ''%'' \<or> x = CHR ''&'' \<or> x = CHR ''_'' then [CHR 0x5C, x] else [x])"
    by (auto simp: percent_guarded_def less_Suc_eq)
  from percent_guarded_append [OF this Cons.IH] show ?case
    by (simp only: latex_escape_Cons)
qed


lemma latex_escape_dot: "latex_escape (s @ ''.'') = latex_escape s @ ''.''"
  by (simp add: latex_escape_append latex_escape_Cons latex_escape_Nil)

lemma summary_shape:
  assumes "summary_section py_str d = Inr summ"
  shows "percent_guarded summ \<and> summ \<noteq> [] \<and> last summ = CHR ''.''"
proof -
  obtain s1 where s1: "generic_summary py_str d = s1 @ ''.''"
    unfolding generic_summary_def by (metis append.assoc)
  have "'' position.'' = '' position'' @ ''.''" by simp
  then obtain s2 where
    s2: "quoting_summary py_str d (dict_get d ''job_description'' (JString [])) = s2 @ ''.''"
    unfolding quoting_summary_def by (metis append.assoc)
  from assms obtain g where
    "summ = latex_escape (if g then generic_summary py_str d
       else quoting_summary py_str d (dict_get d ''job_description'' (JString [])))"
    by (auto simp: summary_section_def Let_def split: sum.splits)
  then have "summ = latex_escape (s1 @ ''.'') \<or> summ = latex_escape (s2 @ ''.'')"
    by (cases g) (simp_all add: s1 s2)
  then obtain s where "summ = latex_escape (s @ ''.'')" by blast
  then have summ: "summ = latex_escape s @ ''.''" by (simp only: latex_escape_dot)
  have "percent_guarded ''.''" by (simp add: percent_guarded_def)
  with percent_guarded_escape [of s] have "percent_guarded summ"
    unfolding summ by (rule percent_guarded_append)
  with summ show ?thesis by simp
qed

lemma prefix_drop_nth:
  assumes "prefix k (drop i u)" and "j < length k"
  shows "u ! (i + j) = k ! j"
proof -
  from assms(1) obtain z where z: "drop i u = k @ z" by (auto simp: prefix_def)
  with assms(2) have "i + j < length u"
    by (metis add.commute length_append length_drop less_diff_conv trans_less_add1)
  then have "u ! (i + j) = drop i u ! j" by simp
  with z assms(2) show ?thesis by (simp add: nth_append)
qed

lemma skills_token_chars:
  "length LATEX_SKILLS_PLACEHOLDER = 27"
  "LATEX_SKILLS_PLACEHOLDER ! 26 = CHR ''%''"
  "LATEX_SKILLS_PLACEHOLDER ! 25 = CHR ''>''"
  "CHR ''.'' \<notin> set LATEX_SKILLS_PLACEHOLDER"
  by (simp_all add: LATEX_SKILLS_PLACEHOLDER_def)

lemma no_skills_token_across:
  assumes g: "percent_guarded summ" and ne: "summ \<noteq> []" and l: "last summ = CHR ''.''"
    and pre: "prefix LATEX_SKILLS_PLACEHOLDER (drop i (x @ summ @ y))"
    and i: "i < length x + length summ"
  shows "i + length LATEX_SKILLS_PLACEHOLDER \<le> length x"
proof (rule ccontr)
  let ?K = LATEX_SKILLS_PLACEHOLDER
  let ?u = "x @ summ @ y"
  assume "\<not> i + length ?K \<le> length x"
  then have over: "length x < i + 27" by (simp add: skills_token_chars)
  have nth: "?u ! (i + k) = ?K ! k" if "k < 27" for k
    using prefix_drop_nth [OF pre, of k] that by (simp add: skills_token_chars)
  show False
  proof (cases "length x + length summ \<le> i + 27")
    case True
    let ?pos = "length x + length summ - 1"
    from ne have len: "0 < length summ" by simp
    from i True len have k: "?pos - i < 27" and ik: "i + (?pos - i) = ?pos" by arith+
    from nth [OF k] ik have "?u ! ?pos = ?K ! (?pos - i)" by simp
    moreover have "?u ! ?pos = summ ! (length summ - 1)"
    proof -
      from len have a: "\<not> ?pos < length x" and b: "?pos - length x = length summ - 1"
        and c: "length summ - 1 < length summ" by arith+
      from a have "?u ! ?pos = (summ @ y) ! (?pos - length x)" by (simp add: nth_append)
      with b c show ?thesis by (simp add: nth_append)
    qed
    moreover from ne l have "summ ! (length summ - 1) = CHR ''.''"
      by (simp add: last_conv_nth)
    ultimately have "?K ! (?pos - i) = CHR ''.''" by simp
    moreover from k have "?K ! (?pos - i) \<in> set ?K"
      by (simp add: skills_token_chars)
    ultimately show False by (simp add: skills_token_chars)
  next
    case False
    let ?e = "i + 26"
    from over False have e1: "length x \<le> ?e" and e2: "?e - length x < length summ" by arith+
    from nth [of 26] have "?u ! ?e = CHR ''%''" by (simp add: skills_token_chars)
    with e1 e2 have "summ ! (?e - length x) = CHR ''%''" by (simp add: nth_append)
    with g e2 have pos: "0 < ?e - length x" and bs: "summ ! (?e - length x - 1) = CHR 0x5C"
      unfolding percent_guarded_def by blast+
    from pos have f1: "\<not> i + 25 < length x" and f2: "i + 25 - length x = ?e - length x - 1"
      by arith+
    from e2 f2 have f3: "i + 25 - length x < length summ" by arith
    from nth [of 25] have "?u ! (i + 25) = CHR ''>''" by (simp add: skills_token_chars)
    with f1 f3 have "summ ! (i + 25 - length x) = CHR ''>''" by (simp add: nth_append)
    with bs f2 show False by simp
  qed
qed


lemma summary_token_chars: "length LATEX_SUMMARY_PLACEHOLDER = 23"
  by (simp add: LATEX_SUMMARY_PLACEHOLDER_def)

lemma replace_summary_then_skills:
  assumes g: "percent_guarded summ" and ne: "summ \<noteq> []" and l: "last summ = CHR ''.''"
    and t: "t = a @ LATEX_SUMMARY_PLACEHOLDER @ b @ LATEX_SKILLS_PLACEHOLDER @ c"
    and os: "occurrences LATEX_SUMMARY_PLACEHOLDER t = [p]"
    and ok: "occurrences LATEX_SKILLS_PLACEHOLDER t = [q]"
  shows "py_replace (py_replace t LATEX_SUMMARY_PLACEHOLDER summ) LATEX_SKILLS_PLACEHOLDER skills
           = a @ summ @ b @ skills @ c"
proof -
  let ?S = LATEX_SUMMARY_PLACEHOLDER and ?K = LATEX_SKILLS_PLACEHOLDER
  have Sne: "?S \<noteq> []" and Kne: "?K \<noteq> []"
    using summary_token_chars skills_token_chars(1) by auto
  have lt: "length t = length a + 23 + length b + 27 + length c"
    by (simp add: t summary_token_chars skills_token_chars)
  have "prefix ?S (drop (length a) t)" by (simp add: t)
  with occurrences_iff [OF os, of "length a"] lt have p: "p = length a" by simp
  have "drop (length a + 23 + length b) t = ?K @ c"
    by (simp add: t summary_token_chars)
  then have "prefix ?K (drop (length a + 23 + length b) t)" by simp
  with occurrences_iff [OF ok, of "length a + 23 + length b"] lt
  have q: "q = length a + 23 + length b" by simp
  \<comment> \<open>the summary token\<close>
  have 1: "\<forall>i<length a. \<not> prefix ?S (drop i (a @ ?S @ b @ ?K @ c))"
  proof (intro allI impI)
    fix i assume "i < length a"
    with occurrences_iff [OF os, of i] lt p show "\<not> prefix ?S (drop i (a @ ?S @ b @ ?K @ c))"
      by (simp add: t)
  qed
  have 2: "\<forall>i<length (b @ ?K @ c). \<not> prefix ?S (drop i (b @ ?K @ c))"
  proof (intro allI impI)
    fix i assume i: "i < length (b @ ?K @ c)"
    have "drop (length a + 23 + i) t = drop i (b @ ?K @ c)"
      by (simp add: t summary_token_chars)
    moreover from i have "length a + 23 + i \<le> length t"
      by (simp add: lt skills_token_chars)
    ultimately show "\<not> prefix ?S (drop i (b @ ?K @ c))"
      using occurrences_iff [OF os, of "length a + 23 + i"] p by simp
  qed
  have t1: "py_replace t ?S summ = (a @ summ @ b) @ ?K @ c"
    unfolding t using py_replace_first [OF Sne 1, of summ] py_replace_absent [OF Sne 2, of summ]
    by simp
  \<comment> \<open>the skills token\<close>
  have 3: "\<forall>i<length (a @ summ @ b). \<not> prefix ?K (drop i ((a @ summ @ b) @ ?K @ c))"
  proof (intro allI impI notI)
    fix i assume i: "i < length (a @ summ @ b)"
      and pre: "prefix ?K (drop i ((a @ summ @ b) @ ?K @ c))"
    show False
    proof (cases "i < length a + length summ")
      case True
      from pre have pre': "prefix ?K (drop i (a @ summ @ (b @ ?K @ c)))" by simp
      from no_skills_token_across [OF g ne l pre' True] have w: "i + length ?K \<le> length a" .
      from pre have "prefix ?K (drop i (a @ (summ @ b @ ?K @ c)))" by simp
      from prefix_window [OF this w, of "?S @ b @ ?K @ c"] have "prefix ?K (drop i t)"
        by (simp add: t)
      moreover from w have "i \<le> length t" by (simp add: lt)
      ultimately have "i = q" using occurrences_iff [OF ok, of i] by simp
      with q w show False by (simp add: skills_token_chars)
    next
      case False
      define j where "j = i - (length a + length summ)"
      from False i have j: "j < length b" and ij: "i = length a + length summ + j"
        by (simp_all add: j_def)
      have "drop i ((a @ summ @ b) @ ?K @ c) = drop j (b @ ?K @ c)" by (simp add: ij)
      moreover have "drop (length a + 23 + j) t = drop j (b @ ?K @ c)"
        by (simp add: t summary_token_chars)
      ultimately have "prefix ?K (drop (length a + 23 + j) t)" using pre by simp
      moreover from j have "length a + 23 + j \<le> length t" by (simp add: lt)
      ultimately have "length a + 23 + j = q"
        using occurrences_iff [OF ok, of "length a + 23 + j"] by simp
      with q j show False by simp
    qed
  qed
  have 4: "\<forall>i<length c. \<not> prefix ?K (drop i c)"
  proof (intro allI impI)
    fix i assume i: "i < length c"
    have "drop (q + 27 + i) t = drop i c"
      by (simp add: t q summary_token_chars skills_token_chars)
    moreover from i have "q + 27 + i \<le> length t" by (simp add: lt q)
    ultimately show "\<not> prefix ?K (drop i c)"
      using occurrences_iff [OF ok, of "q + 27 + i"] by simp
  qed
  show ?thesis
    unfolding t1 using py_replace_first [OF Kne 3, of skills] py_replace_absent [OF Kne 4, of skills]
    by simp
qed


lemma replace_skills_before_summary:
  assumes g: "percent_guarded summ" and ne: "summ \<noteq> []" and l: "last summ = CHR ''.''"
    and t: "t = a @ LATEX_SKILLS_PLACEHOLDER @ b @ LATEX_SUMMARY_PLACEHOLDER @ c"
    and os: "occurrences LATEX_SUMMARY_PLACEHOLDER t = [p]"
    and ok: "occurrences LATEX_SKILLS_PLACEHOLDER t = [q]"
  shows "py_replace (py_replace t LATEX_SUMMARY_PLACEHOLDER summ) LATEX_SKILLS_PLACEHOLDER skills
           = a @ skills @ b @ summ @ c"
proof -
  let ?S = LATEX_SUMMARY_PLACEHOLDER and ?K = LATEX_SKILLS_PLACEHOLDER
  have Sne: "?S \<noteq> []" and Kne: "?K \<noteq> []"
    using summary_token_chars skills_token_chars(1) by auto
  have lt: "length t = length a + 27 + length b + 23 + length c"
    by (simp add: t summary_token_chars skills_token_chars)
  have "prefix ?K (drop (length a) t)" by (simp add: t)
  with occurrences_iff [OF ok, of "length a"] lt have q: "q = length a" by simp
  have "drop (length a + 27 + length b) t = ?S @ c"
    by (simp add: t skills_token_chars)
  then have "prefix ?S (drop (length a + 27 + length b) t)" by simp
  with occurrences_iff [OF os, of "length a + 27 + length b"] lt
  have p: "p = length a + 27 + length b" by simp
  \<comment> \<open>the summary token\<close>
  have 1: "\<forall>i<length (a @ ?K @ b). \<not> prefix ?S (drop i ((a @ ?K @ b) @ ?S @ c))"
  proof (intro allI impI)
    fix i assume "i < length (a @ ?K @ b)"
    with occurrences_iff [OF os, of i] lt p
    show "\<not> prefix ?S (drop i ((a @ ?K @ b) @ ?S @ c))"
      by (simp add: t skills_token_chars)
  qed
  have 2: "\<forall>i<length c. \<not> prefix ?S (drop i c)"
  proof (intro allI impI)
    fix i assume i: "i < length c"
    have "drop (p + 23 + i) t = drop i c"
      by (simp add: t p summary_token_chars skills_token_chars)
    moreover from i have "p + 23 + i \<le> length t" by (simp add: lt p)
    ultimately show "\<not> prefix ?S (drop i c)"
      using occurrences_iff [OF os, of "p + 23 + i"] by simp
  qed
  have "py_replace ((a @ ?K @ b) @ ?S @ c) ?S summ = (a @ ?K @ b) @ summ @ c"
    using py_replace_first [OF Sne 1, of summ] py_replace_absent [OF Sne 2, of summ] by simp
  then have t1: "py_replace t ?S summ = a @ ?K @ (b @ summ @ c)"
    by (simp add: t)
  \<comment> \<open>the skills token\<close>
  have 3: "\<forall>i<length a. \<not> prefix ?K (drop i (a @ ?K @ (b @ summ @ c)))"
  proof (intro allI impI notI)
    fix i assume i: "i < length a" and pre: "prefix ?K (drop i (a @ ?K @ (b @ summ @ c)))"
    from pre have "prefix ?K (drop i ((a @ ?K) @ (b @ summ @ c)))" by simp
    moreover from i have "i + length ?K \<le> length (a @ ?K)" by simp
    ultimately have "prefix ?K (drop i ((a @ ?K) @ (b @ ?S @ c)))" by (rule prefix_window)
    then have "prefix ?K (drop i t)" by (simp add: t)
    moreover from i have "i \<le> length t" by (simp add: lt)
    ultimately have "i = q" using occurrences_iff [OF ok, of i] by simp
    with q i show False by simp
  qed
  have 4: "\<forall>i<length (b @ summ @ c). \<not> prefix ?K (drop i (b @ summ @ c))"
  proof (intro allI impI notI)
    fix i assume i: "i < length (b @ summ @ c)" and pre: "prefix ?K (drop i (b @ summ @ c))"
    show False
    proof (cases "i < length b + length summ")
      case True
      from no_skills_token_across [OF g ne l pre True] have w: "i + length ?K \<le> length b" .
      from prefix_window [OF pre w, of "?S @ c"] have "prefix ?K (drop i (b @ ?S @ c))" .
      moreover have "drop (length a + 27 + i) t = drop i (b @ ?S @ c)"
        by (simp add: t skills_token_chars)
      ultimately have "prefix ?K (drop (length a + 27 + i) t)" by simp
      moreover from w have "length a + 27 + i \<le> length t" by (simp add: lt)
      ultimately have "length a + 27 + i = q"
        using occurrences_iff [OF ok, of "length a + 27 + i"] by simp
      with q show False by simp
    next
      case False
      define j where "j = i - (length b + length summ)"
      from False i have j: "j < length c" and ij: "i = length b + length summ + j"
        by (simp_all add: j_def)
      have "drop i (b @ summ @ c) = drop j c" by (simp add: ij)
      moreover have "drop (p + 23 + j) t = drop j c"
        by (simp add: t p summary_token_chars skills_token_chars)
      ultimately have "prefix ?K (drop (p + 23 + j) t)" using pre by simp
      moreover from j have "p + 23 + j \<le> length t" by (simp add: lt p)
      ultimately have "p + 23 + j = q"
        using occurrences_iff [OF ok, of "p + 23 + j"] by simp
      with p q show False by simp
    qed
  qed
  show ?thesis
    unfolding t1
    using py_replace_first [OF Kne 3, of skills] py_replace_absent [OF Kne 4, of skills]
    by simp
qed

text \<open>
  A listing whose description is a string and whose skills are a list of strings has both
  sections: building them raises nothing.
\<close>

lemma skill_items_strings:
  "skill_items (map JString skills) =
     Inr (map (\<lambda>skill. ''    '' @ [CHR 0x5C] @ ''item '' @ latex_escape skill) skills)"
  by (induction skills) simp_all

lemma typed_listing_sections:
  assumes "extracted_data ''job_description'' = Some (JString description)"
    and "extracted_data ''required_skills'' = Some (JArray (map JString skills))"
  shows "\<exists>summary_text. summary_section py_str extracted_data = Inr summary_text"
    and "\<exists>items. skills_section extracted_data = Inr items"
proof -
  have "use_generic_summary (JString description) =
      Inr (description = [] \<or> length description < 30
            \<or> prefix ''Could not extract'' description)"
    by (simp add: use_generic_summary_def)
  then show "\<exists>summary_text. summary_section py_str extracted_data = Inr summary_text"
    by (simp add: summary_section_def dict_get_def assms(1) Let_def)
  show "\<exists>items. skills_section extracted_data = Inr items"
    by (simp add: skills_section_def dict_get_def assms(2) Let_def skill_items_strings)
qed

text \<open>
  C5 (as amended). When each of the two placeholder tokens occurs exactly once in the
  template, each is replaced exactly once, by the summary section and by the skills section
  of the listing, and every other part of the template is in the output as it was, whichever
  token comes first.
\<close>

theorem fill_template_each_once:
  assumes "summary_section py_str extracted_data = Inr summary_text"
    and "skills_section extracted_data = Inr skills_latex_items"
    and "occurrences LATEX_SUMMARY_PLACEHOLDER template_content = [p]"
    and "occurrences LATEX_SKILLS_PLACEHOLDER template_content = [q]"
  shows "(template_content = a @ LATEX_SUMMARY_PLACEHOLDER @ b @ LATEX_SKILLS_PLACEHOLDER @ c \<longrightarrow>
            fill_template py_str template_content extracted_data =
              Inr (a @ summary_text @ b @ skills_latex_items @ c))
       \<and> (template_content = a @ LATEX_SKILLS_PLACEHOLDER @ b @ LATEX_SUMMARY_PLACEHOLDER @ c \<longrightarrow>
            fill_template py_str template_content extracted_data =
              Inr (a @ skills_latex_items @ b @ summary_text @ c))"
proof -
  from summary_shape [OF assms(1)]
  have g: "percent_guarded summary_text" and ne: "summary_text \<noteq> []"
    and l: "last summary_text = CHR ''.''" by simp_all
  have fill: "fill_template py_str template_content extracted_data =
      Inr (py_replace (py_replace template_content LATEX_SUMMARY_PLACEHOLDER summary_text)
             LATEX_SKILLS_PLACEHOLDER skills_latex_items)"
    by (simp add: fill_template_def assms(1,2))
  show ?thesis
    unfolding fill
    using replace_summary_then_skills [OF g ne l _ assms(3,4)]
      replace_skills_before_summary [OF g ne l _ assms(3,4)]
    by simp
qed

theorem fill_template_each_once_witness:
  "summary_section str_unused (listing ''We build data platforms for retail banks'') =
     Inr ''Summary based on job description: We build data platforms for retail banks My background aligns with the requirements of the Data Engineer position.''
   \<and> skills_section (listing ''We build data platforms for retail banks'') =
     Inr (''    '' @ [CHR 0x5C] @ ''item Python'' @ [CHR 0x0A] @ ''    '' @ [CHR 0x5C] @ ''item SQL'')
   \<and> occurrences LATEX_SUMMARY_PLACEHOLDER
        ''Profile: %<SUMMARY_PLACEHOLDER>% Skills: %<SKILLS_LIST_PLACEHOLDER>% End'' = [9]
   \<and> occurrences LATEX_SKILLS_PLACEHOLDER
        ''Profile: %<SUMMARY_PLACEHOLDER>% Skills: %<SKILLS_LIST_PLACEHOLDER>% End'' = [41]
   \<and> fill_template str_unused
        ''Profile: %<SUMMARY_PLACEHOLDER>% Skills: %<SKILLS_LIST_PLACEHOLDER>% End''
        (listing ''We build data platforms for retail banks'') =
     Inr (''Profile: ''
          @ ''Summary based on job description: We build data platforms for retail banks My background aligns with the requirements of the Data Engineer position.''
          @ '' Skills: ''
          @ (''    '' @ [CHR 0x5C] @ ''item Python'' @ [CHR 0x0A] @ ''    '' @ [CHR 0x5C] @ ''item SQL'')
          @ '' End'')"
proof -
  let ?d = "listing ''We build data platforms for retail banks''"
  let ?t = "''Profile: %<SUMMARY_PLACEHOLDER>% Skills: %<SKILLS_LIST_PLACEHOLDER>% End''"
  have 1: "summary_section str_unused ?d =
     Inr ''Summary based on job description: We build data platforms for retail banks My background aligns with the requirements of the Data Engineer position.''"
    by code_simp
  have 2: "skills_section ?d =
     Inr (''    '' @ [CHR 0x5C] @ ''item Python'' @ [CHR 0x0A] @ ''    '' @ [CHR 0x5C] @ ''item SQL'')"
    by code_simp
  have 3: "occurrences LATEX_SUMMARY_PLACEHOLDER ?t = [9]"
    by code_simp
  have 4: "occurrences LATEX_SKILLS_PLACEHOLDER ?t = [41]"
    by code_simp
  have 5: "?t = ''Profile: '' @ LATEX_SUMMARY_PLACEHOLDER @ '' Skills: ''
                 @ LATEX_SKILLS_PLACEHOLDER @ '' End''"
    by (simp add: LATEX_SUMMARY_PLACEHOLDER_def LATEX_SKILLS_PLACEHOLDER_def)
  from fill_template_each_once [OF 1 2 3 4, of "''Profile: ''" "'' Skills: ''" "'' End''"] 5
  have "fill_template str_unused ?t ?d =
     Inr (''Profile: ''
          @ ''Summary based on job description: We build data platforms for retail banks My background aligns with the requirements of the Data Engineer position.''
          @ '' Skills: ''
          @ (''    '' @ [CHR 0x5C] @ ''item Python'' @ [CHR 0x0A] @ ''    '' @ [CHR 0x5C] @ ''item SQL'')
          @ '' End'')"
    by blast
  with 1 2 3 4 show ?thesis by blast
qed

text \<open>
  C5 as stated fails: \<open>str.replace\<close> replaces every occurrence. A template with the summary
  token twice has it replaced twice, and a template without the tokens is returned as it is.
\<close>

theorem fill_template_twice_counterexample:
  "occurrences LATEX_SUMMARY_PLACEHOLDER ''%<SUMMARY_PLACEHOLDER>% and %<SUMMARY_PLACEHOLDER>%'' = [0, 28]
   \<and> occurrences LATEX_SKILLS_PLACEHOLDER ''%<SUMMARY_PLACEHOLDER>% and %<SUMMARY_PLACEHOLDER>%'' = []
   \<and> fill_template str_unused ''%<SUMMARY_PLACEHOLDER>% and %<SUMMARY_PLACEHOLDER>%''
        (listing ''Short text of twenty-nine ch.'') =
       Inr ''Highly motivated professional seeking the Data Engineer position at Acme. and Highly motivated professional seeking the Data Engineer position at Acme.''
   \<and> fill_template str_unused ''No placeholder here''
        (listing ''Short text of twenty-nine ch.'') = Inr ''No placeholder here''"
  by code_simp

end
